theory Spec2Isabelle
  imports Complex_Main
begin

section \<open>Data model\<close>

text \<open>
  Shallow embedding of the autotuning runtime: \<^verbatim>\<open>src/tg/utils.h\<close>, \<^verbatim>\<open>src/tg/utils.cc\<close>,
  \<^verbatim>\<open>src/tg/autoschedule/auto_schedule.cc\<close>, \<^verbatim>\<open>src/tg/autoschedule/interpreter.cc\<close> and
  \<^verbatim>\<open>src/tg/runtime/driver.cc\<close>.

  \<^item> \<^verbatim>\<open>IntKey\<close>, task ids and session ids are integers.
  \<^item> A \<^verbatim>\<open>MultiScheduleEntity\<close> is represented by its \<^verbatim>\<open>to_string\<close> form, a tensor and a
    target by their names.
  \<^item> \<^verbatim>\<open>double\<close> scores are reals: the code only compares and stores them.
  \<^item> \<^verbatim>\<open>std::unordered_map\<close> is a map \<open>'k \<rightharpoonup> 'v\<close>; the per-key function queues, which the
    driver only reaches through \<^verbatim>\<open>operator[]\<close> (a missing key is created with an empty
    queue), are total functions into lists.
  \<^item> \<^verbatim>\<open>std::deque\<close>, \<^verbatim>\<open>std::queue\<close> and \<^verbatim>\<open>Queue<T>\<close> are lists, front first.
  \<^item> Every throw, \<^verbatim>\<open>ASSERT\<close>, \<^verbatim>\<open>ERROR\<close>, \<^verbatim>\<open>abort()\<close> and undefined read of the source is
    an \<open>Inl\<close> result.
\<close>

type_synonym IntKey = int
type_synonym MultiScheduleEntity = string
type_synonym Tensor = string
type_synonym Target = string

datatype error =
    RuntimeError string
  | UnsupportedPriority int
  | AssertFailed string
  | Fatal string
  | Abort
  | OutOfRange
  | NullPointer
  | SystemError

record TIRGraph =
  tag :: string
  root_ops :: "string list"
  tensors :: "Tensor list"

section \<open>The worker pool (\<^verbatim>\<open>utils.h\<close>, \<^verbatim>\<open>utils.cc\<close>)\<close>

text \<open>
  \<^verbatim>\<open>ThreadPool\<close>: the deque of pending tasks, the stop flag and the timeout. The mutex makes
  each push and each take atomic, so each is one state transition.
\<close>

record 'j ThreadPool =
  tasks :: "'j list"
  stop :: bool
  timeout :: nat

text \<open>\<^verbatim>\<open>ThreadPool::push_front\<close> (utils.h 89-112): the task is stored with \<^verbatim>\<open>emplace_back\<close>.\<close>

definition push_front :: "'j \<Rightarrow> 'j ThreadPool \<Rightarrow> error + 'j ThreadPool" where
  "push_front f pool =
     (if stop pool then Inl (RuntimeError ''push_front on stopped ThreadPool'')
      else Inr (pool\<lparr>tasks := tasks pool @ [f]\<rparr>))"

text \<open>\<^verbatim>\<open>ThreadPool::push_back\<close> (utils.h 114-137).\<close>

definition push_back :: "'j \<Rightarrow> 'j ThreadPool \<Rightarrow> error + 'j ThreadPool" where
  "push_back f pool =
     (if stop pool then Inl (RuntimeError ''push_back on stopped ThreadPool'')
      else Inr (pool\<lparr>tasks := tasks pool @ [f]\<rparr>))"

text \<open>
  One round of a worker (utils.cc 15-23): with a pending task it takes \<^verbatim>\<open>tasks.front()\<close>
  and pops it; with none it waits (or leaves, when stopped), which is \<open>None\<close>.
\<close>

definition worker_take :: "'j ThreadPool \<Rightarrow> ('j \<times> 'j ThreadPool) option" where
  "worker_take pool =
     (case tasks pool of
        [] \<Rightarrow> None
      | task # rest \<Rightarrow> Some (task, pool\<lparr>tasks := rest\<rparr>))"

text \<open>The closure that \<^verbatim>\<open>schedule_for\<close> submits: a call of \<^verbatim>\<open>schedule_func(k, g, t)\<close>.\<close>

datatype job = schedule_func_job IntKey TIRGraph Target

text \<open>\<^verbatim>\<open>AutoScheduler::schedule_for\<close> (auto_schedule.cc 253-270), on the scheduler's pool.\<close>

definition schedule_for ::
  "IntKey \<Rightarrow> TIRGraph \<Rightarrow> Target \<Rightarrow> int \<Rightarrow> job ThreadPool \<Rightarrow> error + job ThreadPool" where
  "schedule_for key subgraph target priority thread_pool =
     (if priority = 0 then push_back (schedule_func_job key subgraph target) thread_pool
      else if priority = 1 then push_front (schedule_func_job key subgraph target) thread_pool
      else Inl (UnsupportedPriority priority))"

section \<open>The autoscheduler (\<^verbatim>\<open>auto_schedule.cc\<close>, \<^verbatim>\<open>interpreter.cc\<close>)\<close>

text \<open>
  A \<^verbatim>\<open>te::Schedule\<close> is opaque to this code: it is created from the root operations of a
  subgraph and changed only by the registered interpreter. It is kept as the operations it
  was created for and the primitives applied to it.
\<close>

datatype Schedule = Schedule (sch_ops: "string list") (sch_primitives: "string list")

definition create_schedule :: "string list \<Rightarrow> Schedule" where
  "create_schedule ops = Schedule ops []"

record ScheduleResult =
  schedule :: Schedule
  sr_tensors :: "Tensor list"
  schedule_entities :: MultiScheduleEntity

record EvaluatedScheduleResult =
  schedule_result :: ScheduleResult
  evaluation :: real

text \<open>
  \<^verbatim>\<open>AutoScheduleContextNode\<close>. \<^verbatim>\<open>AutoScheduleContext\<close> is a reference to one shared node
  (\<^verbatim>\<open>add_feedback\<close> writes through a copy of \<^verbatim>\<open>*this\<close>), so a change made through any copy
  is a change of the per-key context. \<open>topk_schedules\<close> is the priority queue, kept as a
  list in the order in which \<^verbatim>\<open>top()\<close>/\<^verbatim>\<open>pop()\<close> would deliver it.
\<close>

record AutoScheduleContext =
  ctx_key :: IntKey
  ctx_subgraph :: TIRGraph
  ctx_target :: Target
  topk :: int
  new_trial :: int
  policy :: string
  counts :: int
  topk_schedules :: "EvaluatedScheduleResult list"
  known_schedules :: "MultiScheduleEntity set"
  knowing_schedules :: "MultiScheduleEntity set"

text \<open>
  Modelled from the spec: the declaration of the priority queue is in \<^verbatim>\<open>auto_schedule.h\<close>,
  which is not among the sources. The spec makes \<^verbatim>\<open>top_k\<close> a min-heap of evaluated results
  "ordered by score": \<^verbatim>\<open>top()\<close> is an entry of least evaluation, and \<^verbatim>\<open>operator<\<close> on
  evaluated results compares evaluations. \<^verbatim>\<open>push\<close> inserts by evaluation into the list,
  whose head is \<^verbatim>\<open>top()\<close> and whose tail is what \<^verbatim>\<open>pop()\<close> leaves. Which of several entries
  of equal evaluation a heap delivers first is not fixed by the spec; here it is the one
  pushed last.
\<close>

definition pq_push :: "EvaluatedScheduleResult \<Rightarrow> EvaluatedScheduleResult list \<Rightarrow> EvaluatedScheduleResult list" where
  "pq_push x q = insort_key evaluation x q"

text \<open>
  Modelled from the spec: the constant \<^verbatim>\<open>warm_up_trials\<close> is declared outside the sources;
  the spec gives \<^verbatim>\<open>warm_up\<close> (=64).
\<close>

definition warm_up_trials :: int where
  "warm_up_trials = 64"

text \<open>
  Modelled from the spec: the constructor of \<^verbatim>\<open>AutoScheduleContext\<close> is in
  \<^verbatim>\<open>auto_schedule.h\<close>. By the spec a context is created lazily, with the configuration of
  the scheduler, an empty \<^verbatim>\<open>top_k\<close>, empty seen sets and no proposal counted.
\<close>

definition new_AutoScheduleContext ::
  "IntKey \<Rightarrow> TIRGraph \<Rightarrow> Target \<Rightarrow> int \<Rightarrow> int \<Rightarrow> string \<Rightarrow> AutoScheduleContext" where
  "new_AutoScheduleContext key subgraph target k trial pol =
     \<lparr>ctx_key = key, ctx_subgraph = subgraph, ctx_target = target, topk = k, new_trial = trial,
      policy = pol, counts = 0, topk_schedules = [], known_schedules = {}, knowing_schedules = {}\<rparr>"

text \<open>
  What the code calls outside itself: the two registry entries (absent when \<^verbatim>\<open>Registry::Get\<close>
  returns null), the measurer, and the random sources, which thread a generator state \<open>'g\<close>.
\<close>

record 'g environment =
  interpret_f :: "(Schedule \<Rightarrow> Tensor list \<Rightarrow> TIRGraph \<Rightarrow> Target \<Rightarrow> MultiScheduleEntity \<Rightarrow> Schedule) option"
  judge_f :: "(Schedule list \<Rightarrow> Tensor list \<Rightarrow> Target \<Rightarrow> real \<Rightarrow> string \<Rightarrow> real list) option"
  measure :: "Schedule list \<Rightarrow> Tensor list \<Rightarrow> Target \<Rightarrow> real \<Rightarrow> real list"
  randdouble :: "'g \<Rightarrow> real \<times> 'g"
  choose_one :: "'g \<Rightarrow> MultiScheduleEntity \<times> 'g"
  choose_one_seed :: "MultiScheduleEntity \<Rightarrow> 'g \<Rightarrow> MultiScheduleEntity \<times> 'g"

text \<open>\<^verbatim>\<open>interpret\<close> (interpreter.cc 9-19), named \<open>tg_interpret\<close> here: aborts when no interpreter is registered.\<close>

definition tg_interpret ::
  "'g environment \<Rightarrow> Schedule \<Rightarrow> Tensor list \<Rightarrow> TIRGraph \<Rightarrow> Target \<Rightarrow> MultiScheduleEntity \<Rightarrow> error + Schedule" where
  "tg_interpret env sch ts subgraph target entity =
     (case interpret_f env of
        None \<Rightarrow> Inl Abort
      | Some f \<Rightarrow> Inr (f sch ts subgraph target entity))"

text \<open>\<^verbatim>\<open>empty_schedule\<close> (auto_schedule.cc 13-43).\<close>

definition empty_schedule :: "TIRGraph \<Rightarrow> Schedule \<times> Tensor list" where
  "empty_schedule subgraph = (create_schedule (root_ops subgraph), tensors subgraph)"

text \<open>\<^verbatim>\<open>calculate_possibility\<close> (auto_schedule.cc 46-48).\<close>

definition calculate_possibility :: "real \<Rightarrow> real \<Rightarrow> real \<Rightarrow> real" where
  "calculate_possibility x best upper = exp (x - best) * upper"

text \<open>
  \<^verbatim>\<open>AutoScheduleContext::add_feedback\<close> (auto_schedule.cc 201-223). \<open>remember\<close> is lines
  217-222. \<^verbatim>\<open>top()\<close> of an empty queue (reached only when \<^verbatim>\<open>topk\<close> is not positive) is
  undefined in C++ and an error here.
\<close>

definition remember :: "MultiScheduleEntity \<Rightarrow> AutoScheduleContext \<Rightarrow> AutoScheduleContext" where
  "remember entity self =
     (let knowing = insert entity (knowing_schedules self)
      in if card knowing > 500
         then self\<lparr>known_schedules := knowing, knowing_schedules := {}\<rparr>
         else self\<lparr>knowing_schedules := knowing\<rparr>)"

definition add_feedback ::
  "AutoScheduleContext \<Rightarrow> ScheduleResult \<Rightarrow> real \<Rightarrow> error + AutoScheduleContext" where
  "add_feedback self sr ev =
     (if ev > 0 then
        (let evaluated = \<lparr>schedule_result = sr, evaluation = ev\<rparr>
         in if int (length (topk_schedules self)) < topk self
            then Inr (remember (schedule_entities sr)
                        (self\<lparr>topk_schedules := pq_push evaluated (topk_schedules self)\<rparr>))
            else (case topk_schedules self of
                    [] \<Rightarrow> Inl OutOfRange
                  | least # rest \<Rightarrow>
                      if evaluation evaluated < evaluation least then Inr self
                      else Inr (remember (schedule_entities sr)
                                  (self\<lparr>topk_schedules := pq_push evaluated rest\<rparr>))))
      else Inr (remember (schedule_entities sr) self))"

subsection \<open>One search step: \<^verbatim>\<open>AutoScheduler::auto_schedule\<close> (auto_schedule.cc 77-198)\<close>

text \<open>
  Lines 97-100: the loop that moves \<^verbatim>\<open>top()\<close> to the back of \<^verbatim>\<open>reverse_sort\<close> and pops it,
  until the queue is empty. It returns the queue it leaves and the vector it built.
\<close>

fun drain_topk ::
  "EvaluatedScheduleResult list \<Rightarrow> EvaluatedScheduleResult list
     \<Rightarrow> EvaluatedScheduleResult list \<times> EvaluatedScheduleResult list" where
  "drain_topk [] reverse_sort = ([], reverse_sort)"
| "drain_topk (t # q) reverse_sort = drain_topk q (reverse_sort @ [t])"

text \<open>
  Lines 101-107. The division is a division of doubles; with \<^verbatim>\<open>topk = 0\<close> the queue is
  empty (\<^verbatim>\<open>add_feedback\<close> never fills it) and the loop body does not run.
\<close>

definition possibilities :: "int \<Rightarrow> EvaluatedScheduleResult list \<Rightarrow> real list" where
  "possibilities k reverse_sort =
     (let num_candidates = int (length reverse_sort)
      in map (\<lambda>e. calculate_possibility (evaluation e)
                     (evaluation (reverse_sort ! nat (num_candidates - 1)))
                     (0.7 * real_of_int num_candidates / real_of_int k))
             reverse_sort)"

text \<open>Lines 118-124: \<^verbatim>\<open>j\<close> runs from \<^verbatim>\<open>num_candidates\<close> down to 1 and reads index \<^verbatim>\<open>j-1\<close>.\<close>

fun choose_seed ::
  "'g environment \<Rightarrow> EvaluatedScheduleResult list \<Rightarrow> real list \<Rightarrow> nat \<Rightarrow> 'g
     \<Rightarrow> EvaluatedScheduleResult option \<times> 'g" where
  "choose_seed env reverse_sort p 0 g = (None, g)"
| "choose_seed env reverse_sort p (Suc j) g =
     (let (r, g') = randdouble env g
      in if r < p ! j then (Some (reverse_sort ! j), g')
         else choose_seed env reverse_sort p j g')"

text \<open>Lines 114-133: the proposal \<^verbatim>\<open>new_one\<close> of one trial.\<close>

definition propose ::
  "'g environment \<Rightarrow> AutoScheduleContext \<Rightarrow> EvaluatedScheduleResult list \<Rightarrow> real list \<Rightarrow> 'g
     \<Rightarrow> MultiScheduleEntity \<times> 'g" where
  "propose env context reverse_sort p g =
     (let (r, g1) = randdouble env g;
          (seed, g2) = (if r < 0.7 \<and> counts context > warm_up_trials
                        then choose_seed env reverse_sort p (length reverse_sort) g1
                        else (None, g1))
      in case seed of
           Some s \<Rightarrow> choose_one_seed env (schedule_entities (schedule_result s)) g2
         | None \<Rightarrow> choose_one env g2)"

text \<open>Lines 134-144: what one trial appends to \<^verbatim>\<open>new_candidates\<close>.\<close>

definition admit ::
  "AutoScheduleContext \<Rightarrow> bool \<Rightarrow> MultiScheduleEntity \<Rightarrow> MultiScheduleEntity list
     \<Rightarrow> MultiScheduleEntity list" where
  "admit context must_new new_one new_candidates =
     (if must_new then
        (let c1 = (if new_one \<notin> known_schedules context
                   then new_candidates @ [new_one] else new_candidates)
         in if new_one \<notin> knowing_schedules context then c1 @ [new_one] else c1)
      else new_candidates @ [new_one])"

text \<open>Lines 113-151: the \<^verbatim>\<open>for\<close> loop, by the number of trials still to run.\<close>

fun trials ::
  "'g environment \<Rightarrow> AutoScheduleContext \<Rightarrow> EvaluatedScheduleResult list \<Rightarrow> real list \<Rightarrow> bool
     \<Rightarrow> nat \<Rightarrow> MultiScheduleEntity list \<times> 'g \<Rightarrow> MultiScheduleEntity list \<times> 'g" where
  "trials env context reverse_sort p must_new 0 acc = acc"
| "trials env context reverse_sort p must_new (Suc n) (new_candidates, g) =
     (let (new_one, g') = propose env context reverse_sort p g
      in trials env context reverse_sort p must_new n
           (admit context must_new new_one new_candidates, g'))"

text \<open>
  Lines 111-153: the \<^verbatim>\<open>while\<close> loop. It runs a round of trials as long as
  \<^verbatim>\<open>new_candidates\<close> is empty, and \<^verbatim>\<open>must_new\<close> is false from the second round on. With
  \<^verbatim>\<open>new_trial \<le> 0\<close> no round adds anything and the loop does not end: the value is \<open>None\<close>.
\<close>

partial_function (option) candidates_loop ::
  "'g environment \<Rightarrow> AutoScheduleContext \<Rightarrow> EvaluatedScheduleResult list \<Rightarrow> real list \<Rightarrow> bool
     \<Rightarrow> MultiScheduleEntity list \<Rightarrow> 'g \<Rightarrow> (MultiScheduleEntity list \<times> 'g) option" where
  "candidates_loop env context reverse_sort p must_new new_candidates g =
     (if new_candidates = [] then
        candidates_loop env context reverse_sort p False
          (fst (trials env context reverse_sort p must_new (nat (new_trial context)) (new_candidates, g)))
          (snd (trials env context reverse_sort p must_new (nat (new_trial context)) (new_candidates, g)))
      else Some (new_candidates, g))"

text \<open>
  Lines 95-153 together, the candidate selection of one step: the context it leaves, the
  sorted vector, and the batch.
\<close>

definition candidate_selection ::
  "'g environment \<Rightarrow> AutoScheduleContext \<Rightarrow> 'g
     \<Rightarrow> (AutoScheduleContext \<times> EvaluatedScheduleResult list \<times> MultiScheduleEntity list \<times> 'g) option" where
  "candidate_selection env context g =
     (let (q, reverse_sort) = drain_topk (topk_schedules context) [];
          context1 = context\<lparr>topk_schedules := q\<rparr>;
          p = possibilities (topk context1) reverse_sort
      in case candidates_loop env context1 reverse_sort p True [] g of
           None \<Rightarrow> None
         | Some (new_candidates, g') \<Rightarrow> Some (context1, reverse_sort, new_candidates, g'))"

text \<open>Lines 161-168: a fresh schedule is interpreted for every candidate.\<close>

fun interpret_candidates ::
  "'g environment \<Rightarrow> Tensor list \<Rightarrow> TIRGraph \<Rightarrow> Target \<Rightarrow> MultiScheduleEntity list
     \<Rightarrow> error + Schedule list" where
  "interpret_candidates env ts subgraph target [] = Inr []"
| "interpret_candidates env ts subgraph target (c # cs) =
     (case tg_interpret env (create_schedule (root_ops subgraph)) ts subgraph target c of
        Inl e \<Rightarrow> Inl e
      | Inr tmp_sch \<Rightarrow>
          (case interpret_candidates env ts subgraph target cs of
             Inl e \<Rightarrow> Inl e
           | Inr tmp_schedules \<Rightarrow> Inr (tmp_sch # tmp_schedules)))"

text \<open>
  The loop of lines 60-62 of \<^verbatim>\<open>judge_schedule\<close>: one \<^verbatim>\<open>randdouble()\<close> for each schedule.
\<close>

fun random_judges :: "'g environment \<Rightarrow> nat \<Rightarrow> 'g \<Rightarrow> real list \<times> 'g" where
  "random_judges env 0 g = ([], g)"
| "random_judges env (Suc n) g =
     (let (r, g1) = randdouble env g;
          (rs, g2) = random_judges env n g1
      in (r # rs, g2))"

text \<open>
  Modelled from the spec: the \<^verbatim>\<open>ERROR\<close> and \<^verbatim>\<open>ASSERT\<close> macros are defined outside the
  sources. The spec makes an unknown policy, an unsupported target, a missing reference
  file and a violated assertion fatal at the offending call, so each is an \<open>Inl\<close> result
  here and in the driver.

  \<^verbatim>\<open>AutoScheduler::judge_schedule\<close> (auto_schedule.cc 51-73).
\<close>

definition judge_schedule ::
  "'g environment \<Rightarrow> Schedule list \<Rightarrow> Tensor list \<Rightarrow> Target \<Rightarrow> real \<Rightarrow> string \<Rightarrow> 'g
     \<Rightarrow> error + (real list \<times> 'g)" where
  "judge_schedule env schedules ts target gflop pol g =
     (case judge_f env of
        None \<Rightarrow>
          if pol = ''profile'' then Inr (measure env schedules ts target gflop, g)
          else if pol = ''random'' then Inr (random_judges env (length schedules) g)
          else Inl (Fatal ''No support for policy'')
      | Some f \<Rightarrow> Inr (f schedules ts target gflop pol, g))"

text \<open>
  Lines 173-181, at index \<open>i\<close> with the candidates from \<open>i\<close> on. Reading \<^verbatim>\<open>tmp_judges[i]\<close>
  beyond the judged values is undefined in C++ and an error here.
\<close>

fun judge_loop ::
  "AutoScheduleContext \<Rightarrow> Tensor list \<Rightarrow> (Schedule \<times> MultiScheduleEntity) list \<Rightarrow> real list
     \<Rightarrow> nat \<Rightarrow> real \<times> int \<Rightarrow> error + (AutoScheduleContext \<times> real \<times> int)" where
  "judge_loop context ts [] tmp_judges i best = Inr (context, best)"
| "judge_loop context ts ((sch, cand) # rest) tmp_judges i (best_value, best_ind) =
     (if length tmp_judges \<le> i then Inl OutOfRange
      else
        (case (if policy context = ''profile''
               then add_feedback context
                      \<lparr>schedule = sch, sr_tensors = ts, schedule_entities = cand\<rparr> (tmp_judges ! i)
               else Inr context) of
           Inl e \<Rightarrow> Inl e
         | Inr context' \<Rightarrow>
             judge_loop context' ts rest tmp_judges (Suc i)
               (if tmp_judges ! i > best_value then (tmp_judges ! i, int i)
                else (best_value, best_ind))))"

text \<open>
  The whole step. \<open>None\<close>: the candidate loop does not end. \<^verbatim>\<open>new_candidates[best_ind]\<close>
  with \<^verbatim>\<open>best_ind = -1\<close> (no judged value above -1) is undefined in C++ and an error here.
\<close>

definition auto_schedule ::
  "'g environment \<Rightarrow> TIRGraph \<Rightarrow> AutoScheduleContext \<Rightarrow> 'g
     \<Rightarrow> (error + (AutoScheduleContext \<times> ScheduleResult \<times> 'g)) option" where
  "auto_schedule env subgraph context g =
     (let (sch, ts) = empty_schedule subgraph
      in case candidate_selection env context g of
           None \<Rightarrow> None
         | Some (context1, reverse_sort, new_candidates, g1) \<Rightarrow>
             Some
              (case interpret_candidates env ts subgraph (ctx_target context1) new_candidates of
                 Inl e \<Rightarrow> Inl e
               | Inr tmp_schedules \<Rightarrow>
                   (case judge_schedule env tmp_schedules ts (ctx_target context1) 1
                           (policy context1) g1 of
                      Inl e \<Rightarrow> Inl e
                    | Inr (tmp_judges, g2) \<Rightarrow>
                        (case judge_loop context1 ts (zip tmp_schedules new_candidates)
                                tmp_judges 0 (- 1, - 1) of
                           Inl e \<Rightarrow> Inl e
                         | Inr (context2, best_value, best_ind) \<Rightarrow>
                             if best_ind < 0 then Inl OutOfRange
                             else
                               (case tg_interpret env sch ts subgraph (ctx_target context2)
                                       (new_candidates ! nat best_ind) of
                                  Inl e \<Rightarrow> Inl e
                                | Inr sch' \<Rightarrow>
                                    Inr (context2\<lparr>counts := counts context2 + 1\<rparr>,
                                         \<lparr>schedule = sch', sr_tensors = ts,
                                          schedule_entities = new_candidates ! nat best_ind\<rparr>,
                                         g2))))))"

subsection \<open>The scheduler's entry points (auto_schedule.cc 226-304)\<close>

record AutoScheduler =
  contexts :: "IntKey \<rightharpoonup> AutoScheduleContext"
  as_topk :: int
  as_new_trial :: int
  as_policy :: string

text \<open>Lines 227-229 and 241-243: the context of a key is created on its first use.\<close>

definition touch_context :: "AutoScheduler \<Rightarrow> IntKey \<Rightarrow> TIRGraph \<Rightarrow> Target \<Rightarrow> AutoScheduler" where
  "touch_context scheduler key subgraph target =
     (if contexts scheduler key = None
      then scheduler\<lparr>contexts := (contexts scheduler)
             (key \<mapsto> new_AutoScheduleContext key subgraph target
                        (as_topk scheduler) (as_new_trial scheduler) (as_policy scheduler))\<rparr>
      else scheduler)"

text \<open>\<^verbatim>\<open>AutoScheduler::schedule_func\<close> (auto_schedule.cc 226-236).\<close>

definition schedule_func ::
  "'g environment \<Rightarrow> AutoScheduler \<Rightarrow> IntKey \<Rightarrow> TIRGraph \<Rightarrow> Target \<Rightarrow> 'g
     \<Rightarrow> (error + (AutoScheduler \<times> ScheduleResult \<times> 'g)) option" where
  "schedule_func env scheduler key subgraph target g =
     (let scheduler1 = touch_context scheduler key subgraph target
      in case contexts scheduler1 key of
           None \<Rightarrow> Some (Inl NullPointer)
         | Some context \<Rightarrow>
             (case auto_schedule env subgraph context g of
                None \<Rightarrow> None
              | Some (Inl e) \<Rightarrow> Some (Inl e)
              | Some (Inr (context', results, g')) \<Rightarrow>
                  Some (Inr (scheduler1\<lparr>contexts := (contexts scheduler1)(key \<mapsto> context')\<rparr>,
                             results, g'))))"

text \<open>\<^verbatim>\<open>AutoScheduler::schedule_with_entity\<close> (auto_schedule.cc 239-250).\<close>

definition schedule_with_entity ::
  "'g environment \<Rightarrow> AutoScheduler \<Rightarrow> IntKey \<Rightarrow> TIRGraph \<Rightarrow> Target \<Rightarrow> MultiScheduleEntity
     \<Rightarrow> error + (ScheduleResult \<times> AutoScheduler)" where
  "schedule_with_entity env scheduler key subgraph target entity =
     (let scheduler1 = touch_context scheduler key subgraph target;
          (sch, ts) = empty_schedule subgraph
      in case tg_interpret env sch ts subgraph target entity of
           Inl e \<Rightarrow> Inl e
         | Inr sch' \<Rightarrow>
             Inr (\<lparr>schedule = sch', sr_tensors = ts, schedule_entities = entity\<rparr>, scheduler1))"

text \<open>
  \<^verbatim>\<open>AutoScheduler::feedback_for\<close> (auto_schedule.cc 273-304): \<^verbatim>\<open>add_feedback\<close> on the key's
  context, then a line of the profile log, which changes no state of the scheduler and is
  left out. \<^verbatim>\<open>contexts[key]\<close> of a key without context is a null reference, and
  \<^verbatim>\<open>add_feedback\<close> through it is an error here.
\<close>

definition feedback_for ::
  "AutoScheduler \<Rightarrow> IntKey \<Rightarrow> TIRGraph \<Rightarrow> ScheduleResult \<Rightarrow> real \<Rightarrow> error + AutoScheduler" where
  "feedback_for scheduler key subgraph sr ev =
     (case contexts scheduler key of
        None \<Rightarrow> Inl NullPointer
      | Some context \<Rightarrow>
          (case add_feedback context sr ev of
             Inl e \<Rightarrow> Inl e
           | Inr context' \<Rightarrow>
               Inr (scheduler\<lparr>contexts := (contexts scheduler)(key \<mapsto> context')\<rparr>)))"

section \<open>The session and its workers (\<^verbatim>\<open>driver.cc\<close>)\<close>

text \<open>
  A \<^verbatim>\<open>runtime::Module\<close> is the list of function names it exports; \<^verbatim>\<open>GetFunction\<close> gives a
  null \<^verbatim>\<open>PackedFunc\<close> (\<open>None\<close>) for a name it does not export. A future of a module is the
  outcome of \<^verbatim>\<open>get()\<close>: the module, or the exception it throws.
\<close>

record Module =
  exports :: "string list"

type_synonym PackedFunc = "string option"

definition GetFunction :: "Module \<Rightarrow> string \<Rightarrow> PackedFunc" where
  "GetFunction m name = (if name \<in> set (exports m) then Some name else None)"

type_synonym future_function = "ScheduleResult \<times> (error + Module)"
type_synonym built_function = "ScheduleResult \<times> Module \<times> PackedFunc"
type_synonym best_function = "ScheduleResult \<times> Module \<times> PackedFunc \<times> real \<times> real"


record SubGraphAttrs =
  num_predecessor :: int
  successors :: "IntKey list"

text \<open>
  \<^verbatim>\<open>graphs\<close> is kept as the list of its entries, in the order in which a loop over the map
  visits them; \<open>graph_of\<close> is the lookup.
\<close>

record TIRMultiGraph =
  graphs :: "(IntKey \<times> TIRGraph) list"
  graph_attrs :: "IntKey \<rightharpoonup> SubGraphAttrs"

definition graph_of :: "TIRMultiGraph \<Rightarrow> IntKey \<rightharpoonup> TIRGraph" where
  "graph_of multi_graph = map_of (graphs multi_graph)"

text \<open>
  A \<^verbatim>\<open>std::thread\<close>: default-constructed it is not joinable, started on a worker it is,
  and \<^verbatim>\<open>join()\<close> of a thread that is not joinable throws \<^verbatim>\<open>std::system_error\<close>.
\<close>

datatype thread = Thread (joinable: bool)

definition join :: "thread \<Rightarrow> error + thread" where
  "join th = (if joinable th then Inr (Thread False) else Inl SystemError)"

text \<open>
  The fields of \<^verbatim>\<open>Session\<close> that the modelled functions read or write. The tensor tables,
  the logs and the call orders are left out. \<^verbatim>\<open>finish\<close> is only reached through
  \<^verbatim>\<open>operator[]\<close>, so a task without entry reads \<^verbatim>\<open>false\<close>.
\<close>

record Session =
  sess_target :: Target
  auto_scheduler :: AutoScheduler
  task_cache :: "int \<rightharpoonup> TIRMultiGraph"
  future_functions :: "IntKey \<Rightarrow> future_function list"
  built_functions :: "IntKey \<Rightarrow> built_function list"
  best_functions :: "IntKey \<Rightarrow> best_function list"
  emergency_schedule_queue :: "IntKey list"
  emergency_build_queue :: "IntKey list"
  finish :: "int \<Rightarrow> bool"
  in_tuning :: "int \<rightharpoonup> bool"
  cached_all_functions :: "int \<rightharpoonup> bool"
  sch_threads :: "int \<rightharpoonup> thread"
  build_threads :: "int \<rightharpoonup> thread"
  evaluate_threads :: "int \<rightharpoonup> thread"

text \<open>\<^verbatim>\<open>Session::get_func_name\<close> (driver.cc 217-219), with \<^verbatim>\<open>std::to_string\<close> on an int.\<close>

fun string_of_nat :: "nat \<Rightarrow> string" where
  "string_of_nat n =
     (if n < 10 then [''0123456789'' ! n]
      else string_of_nat (n div 10) @ [''0123456789'' ! (n mod 10)])"

definition to_string :: "int \<Rightarrow> string" where
  "to_string i = (if i < 0 then CHR ''-'' # string_of_nat (nat (- i)) else string_of_nat (nat i))"

definition get_func_name :: "IntKey \<Rightarrow> string" where
  "get_func_name key = ''subgraph_'' @ to_string key"

subsection \<open>The build worker: one visit of a free node (\<^verbatim>\<open>Session::run_build\<close>, driver.cc 526-652)\<close>

text \<open>
  The local variables of one build iteration. \<^verbatim>\<open>build_order\<close> is read and written with
  \<^verbatim>\<open>operator[]\<close>, so a key without entry counts from 0.
\<close>

record build_locals =
  built :: "string set"
  build_order :: "IntKey \<Rightarrow> int"
  b_update_set :: "IntKey set"
  b_delete_set :: "IntKey set"
  build_count :: int

text \<open>The successor loop (driver.cc 575-580, 614-619, 630-635, 644-649).\<close>

fun release_successors :: "IntKey list \<Rightarrow> (IntKey \<Rightarrow> int) \<times> IntKey set \<Rightarrow> (IntKey \<Rightarrow> int) \<times> IntKey set" where
  "release_successors [] acc = acc"
| "release_successors (v # vs) (order, update_set) =
     release_successors vs
       (order(v := order v - 1), if order v - 1 = 0 then insert v update_set else update_set)"

text \<open>
  Inserting the node into the delete set, the \<^verbatim>\<open>ASSERT\<close> on its attributes, and the successor
  loop.
\<close>

definition build_advance :: "TIRMultiGraph \<Rightarrow> IntKey \<Rightarrow> build_locals \<Rightarrow> error + build_locals" where
  "build_advance multi_graph cand l =
     (case graph_attrs multi_graph cand of
        None \<Rightarrow> Inl (AssertFailed ''Can't find subgraph attributes'')
      | Some attrs \<Rightarrow>
          (let (order, update_set) =
                 release_successors (successors attrs) (build_order l, b_update_set l)
           in Inr (l\<lparr>b_delete_set := insert cand (b_delete_set l),
                     build_order := order, b_update_set := update_set\<rparr>)))"

text \<open>
  The emergency branch (driver.cc 539-563): the head of \<^verbatim>\<open>future_functions[key]\<close> is read
  and not popped; a failed build is logged and leaves everything as it was.
\<close>

definition emergency_build :: "Session \<Rightarrow> Session" where
  "emergency_build s =
     (case emergency_build_queue s of
        [] \<Rightarrow> s
      | key # waiting \<Rightarrow>
          (case future_functions s key of
             [] \<Rightarrow> s
           | (sch, future_mod) # _ \<Rightarrow>
               (case future_mod of
                  Inl e \<Rightarrow> s
                | Inr m \<Rightarrow>
                    s\<lparr>emergency_build_queue := waiting,
                      built_functions := (built_functions s)
                        (key := built_functions s key @ [(sch, m, GetFunction m (get_func_name key))])\<rparr>)))"

text \<open>
  The body of \<^verbatim>\<open>for (auto cand : free_set)\<close>. The result is \<open>None\<close> when the worker saw
  \<^verbatim>\<open>finish[task_id]\<close> and returned from \<^verbatim>\<open>run_build\<close>, otherwise the session and the locals
  after the visit. \<^verbatim>\<open>graphs[cand]\<close> of a key without subgraph is a null reference, whose tag
  cannot be read.
\<close>

definition run_build_visit ::
  "int \<Rightarrow> TIRMultiGraph \<Rightarrow> bool \<Rightarrow> IntKey \<Rightarrow> Session \<times> build_locals
     \<Rightarrow> error + (Session \<times> build_locals) option" where
  "run_build_visit task_id multi_graph allow_missing cand sl =
     (let (s0, l) = sl
      in if finish s0 task_id then Inr None
         else
           (let s = emergency_build s0
            in case graph_of multi_graph cand of
                 None \<Rightarrow> Inl NullPointer
               | Some subgraph \<Rightarrow>
                   if tag subgraph \<in> built l then
                     (case build_advance multi_graph cand l of
                        Inl e \<Rightarrow> Inl e
                      | Inr l' \<Rightarrow> Inr (Some (s, l'\<lparr>build_count := build_count l' + 1\<rparr>)))
                   else
                     (case future_functions s cand of
                        [] \<Rightarrow>
                          if allow_missing then
                            (case build_advance multi_graph cand l of
                               Inl e \<Rightarrow> Inl e
                             | Inr l' \<Rightarrow> Inr (Some (s, l')))
                          else Inr (Some (s, l))
                      | (sch, future_mod) # pending \<Rightarrow>
                          (let s1 = s\<lparr>future_functions := (future_functions s)(cand := pending)\<rparr>
                           in case future_mod of
                                Inl e \<Rightarrow>
                                  if allow_missing then
                                    (case build_advance multi_graph cand l of
                                       Inl e \<Rightarrow> Inl e
                                     | Inr l' \<Rightarrow> Inr (Some (s1, l')))
                                  else Inr (Some (s1, l))
                              | Inr m \<Rightarrow>
                                  (let func = GetFunction m (get_func_name cand);
                                       s2 = (if length (built_functions s1 cand) > 1000 then s1
                                             else s1\<lparr>built_functions := (built_functions s1)
                                                    (cand := built_functions s1 cand @ [(sch, m, func)])\<rparr>)
                                   in case build_advance multi_graph cand l of
                                        Inl e \<Rightarrow> Inl e
                                      | Inr l' \<Rightarrow>
                                          Inr (Some (s2, l'\<lparr>build_count := build_count l' + 1,
                                                             built := insert (tag subgraph) (built l')\<rparr>)))))))"

subsection \<open>The evaluate worker: one visit of a free node (\<^verbatim>\<open>evaluate_helper\<close>, driver.cc 763-870)\<close>







subsection \<open>Loading a reference (\<^verbatim>\<open>Session::prepare_for_test\<close>, driver.cc 1164-1211)\<close>

text \<open>
  \<^verbatim>\<open>string_split\<close>, \<^verbatim>\<open>std::stoi\<close>, \<^verbatim>\<open>multi_schedule_entity_from_string\<close> and the function
  builder are outside the sources: a line of the file is given by the key and the entity
  parsed from it (\<open>None\<close> for a line with fewer than two parts), a file by its lines (\<open>None\<close>
  for a file that cannot be opened), and \<open>build_func\<close> is the blocking build.

  \<open>load_line\<close> is the body of the \<^verbatim>\<open>while\<close> loop (lines 1175-1196).
\<close>

type_synonym reference_file = "(IntKey \<times> MultiScheduleEntity) option list"

definition load_line ::
  "'g environment \<Rightarrow> (Schedule \<Rightarrow> Tensor list \<Rightarrow> Target \<Rightarrow> string \<Rightarrow> Module) \<Rightarrow> TIRMultiGraph
     \<Rightarrow> (IntKey \<times> MultiScheduleEntity) option \<Rightarrow> Session \<times> (string \<rightharpoonup> IntKey)
     \<Rightarrow> error + (Session \<times> (string \<rightharpoonup> IntKey))" where
  "load_line env build_func multi_graph line sc =
     (let (s, cache) = sc
      in case line of
           None \<Rightarrow> Inl (AssertFailed ''Bad line'')
         | Some (key, entity) \<Rightarrow>
             (case graph_of multi_graph key of
                None \<Rightarrow> Inl NullPointer
              | Some subgraph \<Rightarrow>
                  (case schedule_with_entity env (auto_scheduler s) key subgraph (sess_target s) entity of
                     Inl e \<Rightarrow> Inl e
                   | Inr (sr, scheduler) \<Rightarrow>
                       (let name = get_func_name key;
                            module = build_func (schedule sr) (sr_tensors sr) (sess_target s) name;
                            func = GetFunction module name
                        in Inr (s\<lparr>auto_scheduler := scheduler,
                                  built_functions := (built_functions s)
                                    (key := built_functions s key @ [(sr, module, func)]),
                                  best_functions := (best_functions s)
                                    (key := best_functions s key @ [(sr, module, func, - 999, - 999)])\<rparr>,
                                if cache (tag subgraph) = None then cache(tag subgraph \<mapsto> key)
                                else cache)))))"

fun load_lines ::
  "'g environment \<Rightarrow> (Schedule \<Rightarrow> Tensor list \<Rightarrow> Target \<Rightarrow> string \<Rightarrow> Module) \<Rightarrow> TIRMultiGraph
     \<Rightarrow> reference_file \<Rightarrow> Session \<times> (string \<rightharpoonup> IntKey)
     \<Rightarrow> error + (Session \<times> (string \<rightharpoonup> IntKey))" where
  "load_lines env build_func multi_graph [] sc = Inr sc"
| "load_lines env build_func multi_graph (line # rest) sc =
     (case load_line env build_func multi_graph line sc of
        Inl e \<Rightarrow> Inl e
      | Inr sc' \<Rightarrow> load_lines env build_func multi_graph rest sc')"

text \<open>Lines 1203-1208: a subgraph without best record takes the one cached for its tag.\<close>

fun alias_missing ::
  "(string \<rightharpoonup> IntKey) \<Rightarrow> (IntKey \<times> TIRGraph) list \<Rightarrow> Session \<Rightarrow> error + Session" where
  "alias_missing cache [] s = Inr s"
| "alias_missing cache ((key, subgraph) # rest) s =
     (if best_functions s key = [] then
        (case cache (tag subgraph) of
           None \<Rightarrow> Inl (AssertFailed ''Can't find the function for subgraph'')
         | Some cached \<Rightarrow>
             (case best_functions s cached of
                [] \<Rightarrow> Inl OutOfRange
              | front # _ \<Rightarrow>
                  alias_missing cache rest
                    (s\<lparr>best_functions := (best_functions s)(key := best_functions s key @ [front])\<rparr>)))
      else alias_missing cache rest s)"

definition prepare_for_test ::
  "'g environment \<Rightarrow> (Schedule \<Rightarrow> Tensor list \<Rightarrow> Target \<Rightarrow> string \<Rightarrow> Module)
     \<Rightarrow> (string \<Rightarrow> reference_file option) \<Rightarrow> int \<Rightarrow> string \<Rightarrow> Session \<Rightarrow> error + Session" where
  "prepare_for_test env build_func files task_id reference s =
     (case task_cache s task_id of
        None \<Rightarrow> Inl (AssertFailed ''No such task'')
      | Some multi_graph \<Rightarrow>
          (case files reference of
             None \<Rightarrow> Inl (Fatal ''Can't open schedule reference file'')
           | Some fin \<Rightarrow>
               (case load_lines env build_func multi_graph fin (s, Map.empty) of
                  Inl e \<Rightarrow> Inl e
                | Inr (s1, cache) \<Rightarrow>
                    (case alias_missing cache (graphs multi_graph) s1 of
                       Inl e \<Rightarrow> Inl e
                     | Inr s2 \<Rightarrow>
                         Inr (s2\<lparr>cached_all_functions :=
                                   (cached_all_functions s2)(task_id \<mapsto> True)\<rparr>)))))"

subsection \<open>Starting and ending the tuning of a task (driver.cc 1214-1324)\<close>

text \<open>Lines 1255-1260, 1265-1270, 1275-1280: a worker thread is started for a task that has none.\<close>

definition spawn :: "(int \<rightharpoonup> thread) \<Rightarrow> int \<Rightarrow> (int \<rightharpoonup> thread)" where
  "spawn threads task_id =
     (if threads task_id = None then threads(task_id \<mapsto> Thread True) else threads)"

text \<open>
  \<^verbatim>\<open>Session::begin_tuning\<close>. The loop that touches the keys of the three queues changes
  nothing in a model where a missing queue is the empty queue.
\<close>

definition begin_tuning ::
  "'g environment \<Rightarrow> (Schedule \<Rightarrow> Tensor list \<Rightarrow> Target \<Rightarrow> string \<Rightarrow> Module)
     \<Rightarrow> (string \<Rightarrow> reference_file option) \<Rightarrow> int \<Rightarrow> string \<Rightarrow> Session \<Rightarrow> error + Session" where
  "begin_tuning env build_func files task_id reference s =
     (case task_cache s task_id of
        None \<Rightarrow> Inl (AssertFailed ''No such task'')
      | Some multi_graph \<Rightarrow>
          (let s1 = s\<lparr>finish := (finish s)(task_id := False)\<rparr>
           in case (if reference \<noteq> [] then prepare_for_test env build_func files task_id reference s1
                    else Inr s1) of
                Inl e \<Rightarrow> Inl e
              | Inr s2 \<Rightarrow>
                  Inr (s2\<lparr>sch_threads := spawn (sch_threads s2) task_id,
                          build_threads := spawn (build_threads s2) task_id,
                          evaluate_threads := spawn (evaluate_threads s2) task_id,
                          in_tuning := (in_tuning s2)(task_id \<mapsto> True)\<rparr>)))"

text \<open>
  Lines 1288-1292 of \<^verbatim>\<open>Session::end_tuning\<close>: the loop that polls
  \<^verbatim>\<open>cached_all_functions[task_id]\<close>. The caller changes nothing while it polls, so on a
  session in which the flag is not set the loop does not end, and the value is \<open>None\<close>.
\<close>

partial_function (option) wait_until_cached :: "Session \<Rightarrow> int \<Rightarrow> unit option" where
  "wait_until_cached s task_id =
     (if cached_all_functions s task_id = Some True then Some ()
      else wait_until_cached s task_id)"

text \<open>
  Lines 1304-1307, 1312-1315, 1320-1323, on one thread table: the branch is taken when
  \<^verbatim>\<open>find\<close> does not find the task, \<^verbatim>\<open>operator[]\<close> then makes a default thread, and its
  \<^verbatim>\<open>join()\<close> decides.
\<close>

definition end_thread :: "(int \<rightharpoonup> thread) \<Rightarrow> int \<Rightarrow> error + (int \<rightharpoonup> thread)" where
  "end_thread threads task_id =
     (if threads task_id = None then
        (case join (Thread False) of
           Inl e \<Rightarrow> Inl e
         | Inr th \<Rightarrow> Inr (threads(task_id := None)))
      else Inr threads)"

definition end_tuning :: "Session \<Rightarrow> int \<Rightarrow> (error + Session) option" where
  "end_tuning s task_id =
     (case wait_until_cached s task_id of
        None \<Rightarrow> None
      | Some _ \<Rightarrow>
          Some
           (let s1 = s\<lparr>finish := (finish s)(task_id := True),
                       in_tuning := (in_tuning s)(task_id := None)\<rparr>
            in case end_thread (sch_threads s1) task_id of
                 Inl e \<Rightarrow> Inl e
               | Inr sch \<Rightarrow>
                   (case end_thread (build_threads s1) task_id of
                      Inl e \<Rightarrow> Inl e
                    | Inr build \<Rightarrow>
                        (case end_thread (evaluate_threads s1) task_id of
                           Inl e \<Rightarrow> Inl e
                         | Inr eval \<Rightarrow>
                             Inr (s1\<lparr>sch_threads := sch, build_threads := build,
                                     evaluate_threads := eval\<rparr>)))))"

subsection \<open>The session registry (driver.cc 69-91, 1365-1404)\<close>

text \<open>The options that the modelled part of the constructor reads.\<close>

record SessionOption =
  autoschedule_topk :: int
  autoschedule_new_trial :: int
  autoschedule_policy :: string

text \<open>\<^verbatim>\<open>Session::Session\<close>: the target check and the empty tables.\<close>

definition new_Session :: "Target \<Rightarrow> int \<Rightarrow> SessionOption \<Rightarrow> error + Session" where
  "new_Session target dev_id sess_option =
     (if target = ''cuda'' \<or> target = ''llvm'' then
        Inr \<lparr>sess_target = target,
             auto_scheduler = \<lparr>contexts = Map.empty, as_topk = autoschedule_topk sess_option,
                               as_new_trial = autoschedule_new_trial sess_option,
                               as_policy = autoschedule_policy sess_option\<rparr>,
             task_cache = Map.empty,
             future_functions = (\<lambda>_. []), built_functions = (\<lambda>_. []), best_functions = (\<lambda>_. []),
             emergency_schedule_queue = [], emergency_build_queue = [],
             finish = (\<lambda>_. False), in_tuning = Map.empty, cached_all_functions = Map.empty,
             sch_threads = Map.empty, build_threads = Map.empty, evaluate_threads = Map.empty\<rparr>
      else Inl (Fatal ''Currently only support CUDA/LLVM''))"

text \<open>A \<^verbatim>\<open>std::shared_ptr<Session>\<close>: null, or a session.\<close>

datatype session_ptr = nullptr | session_at Session

text \<open>The two static variables of \<^verbatim>\<open>create_or_get_session\<close>.\<close>

record session_registry =
  sessions :: "int \<rightharpoonup> session_ptr"
  global_count :: int

text \<open>
  \<^verbatim>\<open>sessions[i]\<close>: \<^verbatim>\<open>operator[]\<close> gives the entry, and makes a null entry for an id that
  has none.
\<close>

definition sessions_at :: "(int \<rightharpoonup> session_ptr) \<Rightarrow> int \<Rightarrow> session_ptr \<times> (int \<rightharpoonup> session_ptr)" where
  "sessions_at m i =
     (case m i of
        None \<Rightarrow> (nullptr, m(i \<mapsto> nullptr))
      | Some ptr \<Rightarrow> (ptr, m))"

text \<open>
  \<^verbatim>\<open>create_or_get_session\<close> (driver.cc 1365-1384). The result is the returned pointer, the
  value left in the reference parameter \<^verbatim>\<open>session_id\<close>, and the registry.
\<close>

definition create_or_get_session ::
  "Target \<Rightarrow> int \<Rightarrow> SessionOption \<Rightarrow> int \<Rightarrow> bool \<Rightarrow> bool \<Rightarrow> session_registry
     \<Rightarrow> error + (session_ptr \<times> int \<times> session_registry)" where
  "create_or_get_session target dev_id sess_option session_id get_it clear_session reg =
     (if get_it then
        (if sessions reg session_id = None then Inl (AssertFailed ''Can't find the session'')
         else if clear_session then
           Inr (nullptr, session_id, reg\<lparr>sessions := (sessions reg)(session_id := None)\<rparr>)
         else
           (let (ptr, m) = sessions_at (sessions reg) session_id
            in Inr (ptr, session_id, reg\<lparr>sessions := m\<rparr>)))
      else
        (case new_Session target dev_id sess_option of
           Inl e \<Rightarrow> Inl e
         | Inr sess \<Rightarrow>
             (let m1 = (sessions reg)(global_count reg \<mapsto> session_at sess);
                  new_id = global_count reg;
                  count = global_count reg + 1;
                  (ptr, m2) = sessions_at m1 count
              in Inr (ptr, new_id, reg\<lparr>sessions := m2, global_count := count\<rparr>))))"

text \<open>\<^verbatim>\<open>create_session\<close> (driver.cc 1387-1392).\<close>

definition create_session ::
  "Target \<Rightarrow> int \<Rightarrow> SessionOption \<Rightarrow> session_registry \<Rightarrow> error + (int \<times> session_registry)" where
  "create_session target dev_id sess_option reg =
     (case create_or_get_session target dev_id sess_option (- 1) False False reg of
        Inl e \<Rightarrow> Inl e
      | Inr (ptr, ret, reg') \<Rightarrow>
          if ret \<ge> 0 then Inr (ret, reg')
          else Inl (AssertFailed ''Invalid session id when creating session''))"

text \<open>
  \<^verbatim>\<open>get_session\<close> (driver.cc 1395-1398), with the dummy target and the dummy option
  \<^verbatim>\<open>SessionOption(0)\<close>, neither of which the get branch reads.
\<close>

definition get_session :: "SessionOption \<Rightarrow> int \<Rightarrow> session_registry \<Rightarrow> error + (session_ptr \<times> session_registry)" where
  "get_session dummy session_id reg =
     (case create_or_get_session ''llvm'' 0 dummy session_id True False reg of
        Inl e \<Rightarrow> Inl e
      | Inr (ptr, _, reg') \<Rightarrow> Inr (ptr, reg'))"

section \<open>Concrete inputs\<close>

text \<open>
  A subgraph, a registered interpreter that records the entity it applied, a measurer that
  gives every schedule the score 2, and random sources that never pick a seed and always
  propose the entity \<open>''fresh''\<close>. The generator state is a counter of draws.
\<close>

definition g0 :: TIRGraph where
  "g0 = \<lparr>tag = ''conv'', root_ops = [''conv''], tensors = [''A'', ''B'']\<rparr>"

definition env0 :: "nat environment" where
  "env0 =
     \<lparr>interpret_f = Some (\<lambda>sch ts subgraph target entity.
                             Schedule (sch_ops sch) (sch_primitives sch @ [entity])),
      judge_f = None,
      measure = (\<lambda>schedules ts target gflop. map (\<lambda>_. 2) schedules),
      randdouble = (\<lambda>g. (1, Suc g)),
      choose_one = (\<lambda>g. (''fresh'', Suc g)),
      choose_one_seed = (\<lambda>seed g. (seed, Suc g))\<rparr>"

definition sr0 :: "MultiScheduleEntity \<Rightarrow> ScheduleResult" where
  "sr0 entity = \<lparr>schedule = Schedule [''conv''] [entity], sr_tensors = [''A'', ''B''],
                 schedule_entities = entity\<rparr>"

definition context0 :: AutoScheduleContext where
  "context0 = new_AutoScheduleContext 5 g0 ''llvm'' 1 1 ''profile''"

definition pool0 :: "job ThreadPool" where
  "pool0 = \<lparr>tasks = [], stop = False, timeout = 300\<rparr>"

definition m0 :: Module where
  "m0 = \<lparr>exports = [''subgraph_5'']\<rparr>"

definition mg0 :: TIRMultiGraph where
  "mg0 = \<lparr>graphs = [(5, g0), (6, g0)],
          graph_attrs = [5 \<mapsto> \<lparr>num_predecessor = 0, successors = []\<rparr>,
                         6 \<mapsto> \<lparr>num_predecessor = 0, successors = []\<rparr>]\<rparr>"

definition option0 :: SessionOption where
  "option0 = \<lparr>autoschedule_topk = 20, autoschedule_new_trial = 20, autoschedule_policy = ''profile''\<rparr>"

definition registry0 :: session_registry where
  "registry0 = \<lparr>sessions = Map.empty, global_count = 0\<rparr>"

text \<open>A session with one task, as the constructor and \<^verbatim>\<open>add_task\<close> leave it.\<close>

definition session0 :: Session where
  "session0 =
     \<lparr>sess_target = ''llvm'',
      auto_scheduler = \<lparr>contexts = Map.empty, as_topk = 20, as_new_trial = 20, as_policy = ''profile''\<rparr>,
      task_cache = [0 \<mapsto> mg0],
      future_functions = (\<lambda>_. []), built_functions = (\<lambda>_. []), best_functions = (\<lambda>_. []),
      emergency_schedule_queue = [], emergency_build_queue = [],
      finish = (\<lambda>_. False), in_tuning = Map.empty, cached_all_functions = Map.empty,
      sch_threads = Map.empty, build_threads = Map.empty, evaluate_threads = Map.empty\<rparr>"

definition build_locals0 :: build_locals where
  "build_locals0 = \<lparr>built = {}, build_order = (\<lambda>_. 0), b_update_set = {}, b_delete_set = {},
                    build_count = 0\<rparr>"



text \<open>A scheduler with a fresh context for key 5, and one whose heap of capacity 1 is full.\<close>

definition scheduler8 :: AutoScheduler where
  "scheduler8 = \<lparr>contexts = [5 \<mapsto> context0], as_topk = 1, as_new_trial = 1, as_policy = ''profile''\<rparr>"

definition scheduler7 :: AutoScheduler where
  "scheduler7 =
     \<lparr>contexts = [5 \<mapsto> context0\<lparr>topk_schedules := [\<lparr>schedule_result = sr0 ''old'', evaluation = 5\<rparr>]\<rparr>],
      as_topk = 1, as_new_trial = 1, as_policy = ''profile''\<rparr>"





section \<open>Auxiliary facts\<close>

lemma get_func_name_5: "get_func_name 5 = ''subgraph_5''"
  by (simp add: get_func_name_def to_string_def)


text \<open>The two ways in which the candidate loop unfolds.\<close>

lemma candidates_loop_done:
  "new_candidates \<noteq> [] \<Longrightarrow>
   candidates_loop env context reverse_sort p must_new new_candidates g = Some (new_candidates, g)"
  by (subst candidates_loop.simps) simp

lemma candidates_loop_round:
  "candidates_loop env context reverse_sort p must_new [] g =
   candidates_loop env context reverse_sort p False
     (fst (trials env context reverse_sort p must_new (nat (new_trial context)) ([], g)))
     (snd (trials env context reverse_sort p must_new (nat (new_trial context)) ([], g)))"
  by (subst candidates_loop.simps) simp

lemma wait_until_cached_done:
  "cached_all_functions s task_id = Some True \<Longrightarrow> wait_until_cached s task_id = Some ()"
  by (subst wait_until_cached.simps) simp

lemma drain_topk_eq: "drain_topk q acc = ([], acc @ q)"
  by (induction q arbitrary: acc) auto

lemma remember_topk [simp]: "topk_schedules (remember entity c) = topk_schedules c"
  by (simp add: remember_def Let_def)

lemma remember_counts [simp]: "counts (remember entity c) = counts c"
  by (simp add: remember_def Let_def)

lemma remember_policy [simp]: "policy (remember entity c) = policy c"
  by (simp add: remember_def Let_def)

section \<open>The worker pool: priorities\<close>

text \<open>
  C1. The claim: a search job submitted with emergency priority while normal jobs are
  pending is placed at the head of the task queue and is taken before them. On the code: a
  normal job for key 7 is submitted to an empty pool, then an emergency job for key 8. The
  queue holds the job of key 7 first and the emergency job behind it, and the next worker
  round takes the normal job: \<^verbatim>\<open>push_front\<close> stores with \<^verbatim>\<open>emplace_back\<close>.
\<close>

theorem emergency_job_queued_behind_normal_job:
  "(case schedule_for 7 g0 ''llvm'' 0 pool0 of
      Inl e \<Rightarrow> None
    | Inr pool1 \<Rightarrow>
        (case schedule_for 8 g0 ''llvm'' 1 pool1 of
           Inl e \<Rightarrow> None
         | Inr pool2 \<Rightarrow> Some (tasks pool2, map_option fst (worker_take pool2))))
   = Some ([schedule_func_job 7 g0 ''llvm'', schedule_func_job 8 g0 ''llvm''],
           Some (schedule_func_job 7 g0 ''llvm''))"
  by (simp add: schedule_for_def push_back_def push_front_def worker_take_def pool0_def)

section \<open>The search step\<close>

text \<open>
  C2. The claim: the search step reads \<^verbatim>\<open>top_k\<close> as a snapshot, and every entry that was in
  it when the step began is still in it after the candidate selection. On the code: a
  context whose queue holds one entry goes through the candidate selection; the sorted
  vector holds the entry and the queue of the context is empty.
\<close>

theorem candidate_selection_empties_topk:
  "(case candidate_selection env0
            (context0\<lparr>topk_schedules := [\<lparr>schedule_result = sr0 ''old'', evaluation = 3\<rparr>]\<rparr>) 0 of
       None \<Rightarrow> None
     | Some (context1, reverse_sort, new_candidates, g) \<Rightarrow>
         Some (topk_schedules context1, reverse_sort))
   = Some ([], [\<lparr>schedule_result = sr0 ''old'', evaluation = 3\<rparr>])"
  by (simp add: candidate_selection_def context0_def new_AutoScheduleContext_def
      candidates_loop_round candidates_loop_done propose_def admit_def env0_def warm_up_trials_def)

text \<open>
  C6. The claim: on the first pass a proposal enters the batch, as exactly one element, only
  if it is in neither seen set. On the code, with one trial that proposes \<open>''fresh''\<close>: when
  \<open>''fresh''\<close> is in \<^verbatim>\<open>known_schedules\<close> and not in \<^verbatim>\<open>knowing_schedules\<close> the batch is
  \<open>[''fresh'']\<close>, and when it is in neither set the batch holds it twice.
\<close>

theorem first_pass_admits_seen_and_duplicates:
  "(case candidate_selection env0 (context0\<lparr>known_schedules := {''fresh''}\<rparr>) 0 of
       None \<Rightarrow> None
     | Some (context1, reverse_sort, new_candidates, g) \<Rightarrow> Some new_candidates) = Some [''fresh'']
  \<and> (case candidate_selection env0 context0 0 of
       None \<Rightarrow> None
     | Some (context1, reverse_sort, new_candidates, g) \<Rightarrow> Some new_candidates)
     = Some [''fresh'', ''fresh'']"
  by (simp add: candidate_selection_def context0_def new_AutoScheduleContext_def
      candidates_loop_round candidates_loop_done propose_def admit_def env0_def warm_up_trials_def)

section \<open>Feedback, counters and interpretation of a given entity\<close>

text \<open>
  The list that stands for the priority queue stays sorted by evaluation, so its head, the
  entry that \<^verbatim>\<open>top()\<close> delivers, is an entry of least evaluation.
\<close>

lemma add_feedback_sorted:
  assumes "sorted (map evaluation (topk_schedules self))"
    and "add_feedback self sr ev = Inr c"
  shows "sorted (map evaluation (topk_schedules c))"
  using assms
  by (auto simp: add_feedback_def pq_push_def Let_def sorted_insort_key
      split: if_splits list.splits)

lemma topk_head_least:
  assumes "sorted (map evaluation (topk_schedules self))"
    and "topk_schedules self = least # rest"
    and "x \<in> set (topk_schedules self)"
  shows "evaluation least \<le> evaluation x"
  using assms by auto

text \<open>Neither feedback nor the candidate selection writes \<^verbatim>\<open>counts\<close>.\<close>

lemma add_feedback_counts:
  "add_feedback self sr ev = Inr c \<Longrightarrow> counts c = counts self"
  by (auto simp: add_feedback_def Let_def split: if_splits list.splits)

lemma judge_loop_counts:
  "judge_loop c0 ts cands tmp_judges i best = Inr (context', best') \<Longrightarrow>
   counts context' = counts c0"
proof (induction c0 ts cands tmp_judges i best rule: judge_loop.induct)
  case (1 c0 ts tmp_judges i best)
  then show ?case by simp
next
  case (2 c0 ts sch cand rest tmp_judges i best_value best_ind)
  from "2.prems" have inr: "\<not> length tmp_judges \<le> i"
    by (auto split: if_splits)
  show ?case
  proof (cases "policy c0 = ''profile''")
    case True
    with "2.prems" inr obtain c where
      fed: "add_feedback c0 \<lparr>schedule = sch, sr_tensors = ts, schedule_entities = cand\<rparr>
              (tmp_judges ! i) = Inr c"
      by (auto split: sum.splits)
    from "2.prems" fed inr True have
      "judge_loop c ts rest tmp_judges (Suc i)
         (if tmp_judges ! i > best_value then (tmp_judges ! i, int i) else (best_value, best_ind))
       = Inr (context', best')"
      by simp
    from "2.IH"[OF inr _ this] fed True have "counts context' = counts c" by simp
    with add_feedback_counts[OF fed] show ?thesis by simp
  next
    case False
    from "2.prems" inr False have
      "judge_loop c0 ts rest tmp_judges (Suc i)
         (if tmp_judges ! i > best_value then (tmp_judges ! i, int i) else (best_value, best_ind))
       = Inr (context', best')"
      by simp
    from "2.IH"[OF inr _ this] False show ?thesis by simp
  qed
qed

lemma candidate_selection_counts:
  "candidate_selection env context g = Some (context1, reverse_sort, new_candidates, g1) \<Longrightarrow>
   counts context1 = counts context"
  by (auto simp: candidate_selection_def drain_topk_eq Let_def split: option.splits)

lemma auto_schedule_counts:
  assumes "auto_schedule env subgraph context g = Some (Inr (context', results, g'))"
  shows "counts context' = counts context + 1"
proof -
  from assms obtain context1 reverse_sort new_candidates g1 where
    sel: "candidate_selection env context g = Some (context1, reverse_sort, new_candidates, g1)"
    by (auto simp: auto_schedule_def empty_schedule_def split: option.splits)
  from assms sel obtain ts tmp_schedules tmp_judges context2 best where
    loop: "judge_loop context1 ts (zip tmp_schedules new_candidates) tmp_judges 0 (- 1, - 1)
             = Inr (context2, best)"
    and fin: "context' = context2\<lparr>counts := counts context2 + 1\<rparr>"
    by (auto simp: auto_schedule_def empty_schedule_def split: sum.splits if_splits)
  from judge_loop_counts[OF loop] candidate_selection_counts[OF sel] fin show ?thesis by simp
qed

lemma schedule_func_counts:
  assumes "schedule_func env scheduler key subgraph target g = Some (Inr (scheduler', results, g'))"
  shows "map_option counts (contexts scheduler' key)
           = Some ((case contexts scheduler key of None \<Rightarrow> 0 | Some c \<Rightarrow> counts c) + 1)"
proof -
  define scheduler1 where "scheduler1 = touch_context scheduler key subgraph target"
  from assms obtain c c' where
    c: "contexts scheduler1 key = Some c"
    and run: "auto_schedule env subgraph c g = Some (Inr (c', results, g'))"
    and out: "scheduler' = scheduler1\<lparr>contexts := (contexts scheduler1)(key \<mapsto> c')\<rparr>"
    by (auto simp: schedule_func_def Let_def scheduler1_def split: option.splits sum.splits)
  have "counts c = (case contexts scheduler key of None \<Rightarrow> 0 | Some c \<Rightarrow> counts c)"
    using c by (auto simp: scheduler1_def touch_context_def new_AutoScheduleContext_def
        split: if_splits option.splits)
  with auto_schedule_counts[OF run] out show ?thesis by simp
qed

lemma feedback_for_counts:
  assumes "feedback_for scheduler key subgraph sr ev = Inr fed"
  shows "map_option counts (contexts fed key) = map_option counts (contexts scheduler key)"
  using assms
  by (auto simp: feedback_for_def split: option.splits sum.splits dest: add_feedback_counts)

lemma schedule_func_scheduler8:
  "\<exists>s r g. schedule_func env0 scheduler8 5 g0 ''llvm'' 0 = Some (Inr (s, r, g))"
  by (simp add: schedule_func_def touch_context_def scheduler8_def auto_schedule_def
      empty_schedule_def g0_def create_schedule_def
      candidate_selection_def context0_def new_AutoScheduleContext_def
      candidates_loop_round candidates_loop_done propose_def admit_def env0_def warm_up_trials_def
      tg_interpret_def judge_schedule_def add_feedback_def pq_push_def remember_def)

text \<open>
  C7. The claim: with a positive score and a heap that holds K entries, the result is
  inserted (and the minimum evicted) if and only if its score is strictly better than the
  minimum, and a result whose score equals the minimum is dropped with the heap unchanged.
  On the code: the heap of capacity 1 holds \<open>''old''\<close> with score 5, and feedback for
  \<open>''new''\<close> with score 5 leaves a heap that holds \<open>''new''\<close> and not \<open>''old''\<close>.
\<close>

theorem equal_score_replaces_minimum:
  "map_option topk (contexts scheduler7 5) = Some 1
   \<and> map_option topk_schedules (contexts scheduler7 5)
     = Some [\<lparr>schedule_result = sr0 ''old'', evaluation = 5\<rparr>]
   \<and> (case feedback_for scheduler7 5 g0 (sr0 ''new'') 5 of
        Inl e \<Rightarrow> None
      | Inr fed \<Rightarrow> map_option topk_schedules (contexts fed 5))
     = Some [\<lparr>schedule_result = sr0 ''new'', evaluation = 5\<rparr>]"
  by (simp add: scheduler7_def context0_def new_AutoScheduleContext_def feedback_for_def
      add_feedback_def pq_push_def remember_def)

text \<open>
  C7, as the code has it: with a positive score and a full heap whose \<^verbatim>\<open>top()\<close> is \<open>least\<close>,
  a result of strictly smaller score is dropped and the scheduler is unchanged; a result
  whose score is equal to or greater than that of \<open>least\<close> is inserted and \<open>least\<close> is
  evicted.
\<close>

theorem feedback_for_full_heap:
  assumes "contexts scheduler key = Some self"
    and "0 < ev"
    and "\<not> int (length (topk_schedules self)) < topk self"
    and "topk_schedules self = least # rest"
  shows "(ev < evaluation least \<longrightarrow> feedback_for scheduler key subgraph sr ev = Inr scheduler)
       \<and> (evaluation least \<le> ev \<longrightarrow>
            (\<exists>fed self'. feedback_for scheduler key subgraph sr ev = Inr fed
               \<and> contexts fed key = Some self'
               \<and> topk_schedules self' = pq_push \<lparr>schedule_result = sr, evaluation = ev\<rparr> rest))"
proof -
  have "contexts scheduler = (contexts scheduler)(key \<mapsto> self)"
    using assms(1) by (simp add: fun_upd_idem)
  then have same: "scheduler\<lparr>contexts := (contexts scheduler)(key \<mapsto> self)\<rparr> = scheduler"
    by simp
  show ?thesis
    using assms same by (simp add: feedback_for_def add_feedback_def Let_def)
qed

text \<open>
  At the full heap of capacity 1 that holds \<open>''old''\<close> with score 5: feedback with score 4
  changes nothing, and feedback with score 6 leaves a heap that holds the new entry alone.
\<close>

theorem feedback_for_full_heap_witness:
  "feedback_for scheduler7 5 g0 (sr0 ''worse'') 4 = Inr scheduler7
   \<and> (case feedback_for scheduler7 5 g0 (sr0 ''better'') 6 of
        Inl e \<Rightarrow> None
      | Inr fed \<Rightarrow> map_option topk_schedules (contexts fed 5))
     = Some [\<lparr>schedule_result = sr0 ''better'', evaluation = 6\<rparr>]"
proof -
  define full where
    "full = context0\<lparr>topk_schedules := [\<lparr>schedule_result = sr0 ''old'', evaluation = 5\<rparr>]\<rparr>"
  have ctx: "contexts scheduler7 5 = Some full"
    by (simp add: scheduler7_def full_def)
  have size: "\<not> int (length (topk_schedules full)) < topk full"
    by (simp add: full_def context0_def new_AutoScheduleContext_def)
  have heap: "topk_schedules full = \<lparr>schedule_result = sr0 ''old'', evaluation = 5\<rparr> # []"
    by (simp add: full_def)
  have worse: "feedback_for scheduler7 5 g0 (sr0 ''worse'') 4 = Inr scheduler7"
    using feedback_for_full_heap[OF ctx _ size heap, of 4 g0 "sr0 ''worse''"] by simp
  have better: "(case feedback_for scheduler7 5 g0 (sr0 ''better'') 6 of
        Inl e \<Rightarrow> None
      | Inr fed \<Rightarrow> map_option topk_schedules (contexts fed 5))
     = Some [\<lparr>schedule_result = sr0 ''better'', evaluation = 6\<rparr>]"
    using feedback_for_full_heap[OF ctx _ size heap, of 6 g0 "sr0 ''better''"]
    by (auto simp: pq_push_def)
  from worse better show ?thesis by simp
qed

text \<open>
  C8. The claim: every invocation of \<^verbatim>\<open>feedback_for\<close> increases \<^verbatim>\<open>counts\<close> of the key by
  exactly 1. On the code: the context of key 5 has \<^verbatim>\<open>counts = 0\<close>, and after feedback with a
  positive score, and after feedback with the score 0, it still has \<^verbatim>\<open>counts = 0\<close>.
\<close>

theorem feedback_for_keeps_counts:
  "map_option counts (contexts scheduler8 5) = Some 0
   \<and> (case feedback_for scheduler8 5 g0 (sr0 ''new'') 2 of
        Inl e \<Rightarrow> None
      | Inr fed \<Rightarrow> map_option counts (contexts fed 5)) = Some 0
   \<and> (case feedback_for scheduler8 5 g0 (sr0 ''new'') 0 of
        Inl e \<Rightarrow> None
      | Inr fed \<Rightarrow> map_option counts (contexts fed 5)) = Some 0"
  by (simp add: scheduler8_def context0_def new_AutoScheduleContext_def feedback_for_def
      add_feedback_def pq_push_def sr0_def)

text \<open>
  C8, as the code has it: \<^verbatim>\<open>feedback_for\<close> leaves \<^verbatim>\<open>counts\<close> of the key as it was, for every
  score; a search step that returns (\<^verbatim>\<open>schedule_func\<close>) increases it by exactly 1, counting
  from 0 for a key whose context the step creates.
\<close>

theorem counts_changed_by_search_step_only:
  "(feedback_for scheduler key subgraph sr ev = Inr fed \<longrightarrow>
      map_option counts (contexts fed key) = map_option counts (contexts scheduler key))
   \<and> (schedule_func env scheduler key subgraph target g = Some (Inr (scheduler', results, g')) \<longrightarrow>
      map_option counts (contexts scheduler' key)
        = Some ((case contexts scheduler key of None \<Rightarrow> 0 | Some c \<Rightarrow> counts c) + 1))"
  by (intro conjI impI) (erule feedback_for_counts, erule schedule_func_counts)

text \<open>
  At the fresh context of key 5: after feedback \<^verbatim>\<open>counts\<close> is 0, and after one search step
  it is 1.
\<close>

theorem counts_changed_by_search_step_only_witness:
  "(case feedback_for scheduler8 5 g0 (sr0 ''new'') 2 of
      Inl e \<Rightarrow> None
    | Inr fed \<Rightarrow> map_option counts (contexts fed 5)) = Some 0
   \<and> (case schedule_func env0 scheduler8 5 g0 ''llvm'' 0 of
        Some (Inr (scheduler', results, g')) \<Rightarrow> map_option counts (contexts scheduler' 5)
      | _ \<Rightarrow> None) = Some 1"
proof -
  obtain fed where fed: "feedback_for scheduler8 5 g0 (sr0 ''new'') 2 = Inr fed"
    by (simp add: scheduler8_def context0_def new_AutoScheduleContext_def feedback_for_def
        add_feedback_def)
  obtain scheduler' results g' where
    run: "schedule_func env0 scheduler8 5 g0 ''llvm'' 0 = Some (Inr (scheduler', results, g'))"
    using schedule_func_scheduler8 by blast
  have before: "contexts scheduler8 5 = Some context0" "counts context0 = 0"
    by (simp_all add: scheduler8_def context0_def new_AutoScheduleContext_def)
  from counts_changed_by_search_step_only
         [of scheduler8 5 g0 "sr0 ''new''" 2 fed env0 "''llvm''" 0 scheduler' results g']
       fed run before
  show ?thesis by simp
qed

text \<open>
  C10. \<^verbatim>\<open>schedule_with_entity\<close>, with an interpreter registered, returns the schedule that
  the interpreter makes of a fresh schedule of the subgraph and the supplied entity, with
  the subgraph's tensors and the entity. Every context that existed before the call,
  that of the key included, is the same after it; the context of no other key changes;
  and a key that had no context has an empty one after the call.
\<close>

theorem schedule_with_entity_frame:
  assumes "interpret_f env = Some f"
  shows "\<exists>scheduler'.
           schedule_with_entity env scheduler key subgraph target entity
             = Inr (\<lparr>schedule = f (create_schedule (root_ops subgraph)) (tensors subgraph)
                                  subgraph target entity,
                     sr_tensors = tensors subgraph, schedule_entities = entity\<rparr>, scheduler')
         \<and> (\<forall>k c. contexts scheduler k = Some c \<longrightarrow> contexts scheduler' k = Some c)
         \<and> (\<forall>k. k \<noteq> key \<longrightarrow> contexts scheduler' k = contexts scheduler k)
         \<and> (contexts scheduler key = None \<longrightarrow>
              (\<exists>c. contexts scheduler' key = Some c \<and> topk_schedules c = []
                 \<and> known_schedules c = {} \<and> knowing_schedules c = {} \<and> counts c = 0))"
  using assms
  by (auto simp: schedule_with_entity_def touch_context_def empty_schedule_def tg_interpret_def
      new_AutoScheduleContext_def)

text \<open>
  At a scheduler that has a context for key 5 and none for key 9, called for key 9: the
  result is the interpreted schedule, the heap of key 5 is as it was, and key 9 has an
  empty context.
\<close>

theorem schedule_with_entity_frame_witness:
  "(case schedule_with_entity env0 scheduler7 9 g0 ''llvm'' ''tile'' of
      Inl e \<Rightarrow> None
    | Inr (result, scheduler') \<Rightarrow>
        Some (result, map_option topk_schedules (contexts scheduler' 5),
              map_option topk_schedules (contexts scheduler' 9),
              map_option counts (contexts scheduler' 9)))
   = Some (sr0 ''tile'', Some [\<lparr>schedule_result = sr0 ''old'', evaluation = 5\<rparr>], Some [], Some 0)"
proof -
  have reg: "interpret_f env0
               = Some (\<lambda>sch ts subgraph target entity.
                         Schedule (sch_ops sch) (sch_primitives sch @ [entity]))"
    by (simp add: env0_def)
  have old: "contexts scheduler7 5
               = Some (context0\<lparr>topk_schedules := [\<lparr>schedule_result = sr0 ''old'', evaluation = 5\<rparr>]\<rparr>)"
    and new: "contexts scheduler7 9 = None"
    by (simp_all add: scheduler7_def)
  from schedule_with_entity_frame[OF reg, of scheduler7 9 g0 "''llvm''" "''tile''"] old new
  show ?thesis
    by (auto simp: sr0_def g0_def create_schedule_def)
qed


section \<open>The pipeline\<close>

text \<open>
  C3. The claim: \<^verbatim>\<open>built_functions[key]\<close> never holds more than 1000 entries, and a
  producer whose push would exceed the bound waits for the consumer instead of dropping
  the item or exceeding the bound. On the code, for a visit of the build worker with a
  finished build waiting in \<^verbatim>\<open>future_functions[5]\<close>: with 1000 entries in
  \<^verbatim>\<open>built_functions[5]\<close> the visit pushes the 1001st; with 1001 entries the visit returns
  with the future consumed and nothing pushed.
\<close>

theorem build_visit_exceeds_bound_and_drops:
  "(case run_build_visit 0 mg0 False 5
           (session0\<lparr>future_functions := (\<lambda>_. [])(5 := [(sr0 ''e'', Inr m0)]),
                     built_functions := (\<lambda>_. [])(5 := replicate 1000 (sr0 ''e'', m0, Some ''subgraph_5''))\<rparr>,
            build_locals0) of
       Inr (Some (s', l')) \<Rightarrow> Some (length (built_functions s' 5), length (future_functions s' 5))
     | _ \<Rightarrow> None) = Some (1001, 0)
   \<and> (case run_build_visit 0 mg0 False 5
           (session0\<lparr>future_functions := (\<lambda>_. [])(5 := [(sr0 ''e'', Inr m0)]),
                     built_functions := (\<lambda>_. [])(5 := replicate 1001 (sr0 ''e'', m0, Some ''subgraph_5''))\<rparr>,
            build_locals0) of
       Inr (Some (s', l')) \<Rightarrow> Some (length (built_functions s' 5), length (future_functions s' 5))
     | _ \<Rightarrow> None) = Some (1001, 0)"
  by (simp add: run_build_visit_def session0_def build_locals0_def emergency_build_def mg0_def
      graph_of_def g0_def build_advance_def get_func_name_5 GetFunction_def m0_def)







section \<open>The session\<close>

text \<open>
  C5. The claim: when \<^verbatim>\<open>end_tuning\<close> returns, \<^verbatim>\<open>finish[task_id]\<close> is true and the three
  worker threads that \<^verbatim>\<open>begin_tuning\<close> started for the task have been joined and removed
  from the thread tables. On the code: \<^verbatim>\<open>begin_tuning\<close> of task 0 starts the three
  threads; once the task is cached, \<^verbatim>\<open>end_tuning\<close> returns with \<^verbatim>\<open>finish[0]\<close> true and with
  the three threads still in the tables and still joinable.
\<close>

theorem end_tuning_leaves_threads_unjoined:
  "(case begin_tuning env0 (\<lambda>sch ts target name. m0) (\<lambda>file. None) 0 [] session0 of
       Inl e \<Rightarrow> None
     | Inr s \<Rightarrow>
         (case end_tuning (s\<lparr>cached_all_functions := [0 \<mapsto> True]\<rparr>) 0 of
            Some (Inr s') \<Rightarrow>
              Some ((sch_threads s 0, build_threads s 0, evaluate_threads s 0),
                    finish s' 0, (sch_threads s' 0, build_threads s' 0, evaluate_threads s' 0))
          | _ \<Rightarrow> None))
   = Some ((Some (Thread True), Some (Thread True), Some (Thread True)),
           True, (Some (Thread True), Some (Thread True), Some (Thread True)))"
  by (simp add: begin_tuning_def session0_def spawn_def end_tuning_def wait_until_cached_done
      end_thread_def)

text \<open>
  C9. The claim: \<^verbatim>\<open>get_session\<close> fails for every id that \<^verbatim>\<open>create_session\<close> never
  returned. On the code: the first \<^verbatim>\<open>create_session\<close> returns 0, and \<^verbatim>\<open>get_session(1)\<close>
  then returns a null pointer and no error.
\<close>

theorem get_session_accepts_unissued_id:
  "(case create_session ''llvm'' 0 option0 registry0 of
       Inl e \<Rightarrow> None
     | Inr (session_id, reg) \<Rightarrow>
         (case get_session option0 1 reg of
            Inl e \<Rightarrow> None
          | Inr (ptr, reg') \<Rightarrow> Some (session_id, ptr)))
    = Some (0, nullptr)"
  by (simp add: create_session_def create_or_get_session_def registry0_def new_Session_def
      sessions_at_def get_session_def)

end
